theory Spec2Isabelle
  imports Main
begin

section \<open>Data model\<close>

text \<open>
  Go's \<open>interface{}\<close> values bound as SQL arguments. The only dynamic type the
  compilers look at is \<open>raw\<close> (the type switch of \<open>UpdateStmt.Build\<close>), so every
  other value is a literal. A \<open>raw\<close> fragment carries a query text and its own
  argument list.
\<close>

datatype val = VNil | VInt int | VStr string | VRaw raw
  and raw = Raw (Query: string) (Value_r: "val list")

text \<open>
  The error values of the package. \<open>ErrTableNotSpecified\<close> and
  \<open>ErrColumnNotSpecified\<close> are its two sentinels; any other error (of a nested
  builder, of the runner, of a result) is \<open>ErrOther\<close> with its message.
\<close>

datatype error = ErrTableNotSpecified | ErrColumnNotSpecified | ErrOther string

text \<open>
  Modelled from the spec: the interface \<open>Buffer\<close> is declared outside the given
  sources. It is an accumulator that owns an ordered text and an ordered argument
  sequence; \<open>WriteString\<close> appends a fragment, \<open>WriteValue\<close> appends
  arguments, and neither can fail.
\<close>

record Buffer =
  text_of :: string
  args_of :: "val list"

definition NewBuffer :: Buffer where
  "NewBuffer = \<lparr>text_of = [], args_of = []\<rparr>"

definition WriteString :: "string \<Rightarrow> Buffer \<Rightarrow> Buffer" where
  "WriteString s buf = buf\<lparr>text_of := text_of buf @ s\<rparr>"

definition WriteValue :: "val list \<Rightarrow> Buffer \<Rightarrow> Buffer" where
  "WriteValue vs buf = buf\<lparr>args_of := args_of buf @ vs\<rparr>"

text \<open>
  Modelled from the spec: the interface \<open>Dialect\<close> is declared outside the given
  sources. The compilers only call its identifier quoting.
\<close>

record Dialect =
  QuoteIdent :: "string \<Rightarrow> string"

text \<open>
  Modelled from the spec: the constant \<open>placeholder\<close> is declared outside the
  given sources; the spec's scenario shows the token as a question mark.
\<close>

definition placeholder :: string where
  "placeholder = ''?''"

text \<open>
  What a call of \<open>Build\<close> can do: return (with an error or with nil) or panic.
  Either way the buffer keeps what was written before.
\<close>

datatype build_result = Returned Buffer "error option" | Panicked Buffer

type_synonym Builder = "Dialect \<Rightarrow> Buffer \<Rightarrow> build_result"

text \<open>
  \<open>raw.Build\<close> is declared outside the given sources; the compilers below take it
  as the parameter \<open>rb\<close> of this type.
\<close>

type_synonym rawBuild = "raw \<Rightarrow> Dialect \<Rightarrow> Buffer \<Rightarrow> Buffer \<times> error option"

section \<open>InsertStmt\<close>

text \<open>
  The struct \<open>InsertStmt\<close>. \<open>RunLen\<close> is a Go \<open>int\<close>, only compared and
  assigned. \<open>RecordID\<close> is a pointer to an \<open>int64\<close> owned by the caller: an
  address into a store, or nil. The embedded runner and event receiver are parameters
  of the execution functions; the embedded \<open>Dialect\<close> is the statement's own.
\<close>

record InsertStmt =
  Dialect_i :: Dialect
  raw_i :: raw
  Table :: string
  Column :: "string list"
  Value :: "val list list"
  RunLen :: int
  ReturnColumn :: "string list"
  RecordID :: "nat option"

text \<open>
  The loop over \<open>b.Column\<close> (lines 49-56): \<open>i\<close> is the index, \<open>pb\<close> the
  contents of \<open>placeholderBuf\<close>.
\<close>

fun column_loop :: "Dialect \<Rightarrow> nat \<Rightarrow> string list \<Rightarrow> Buffer \<Rightarrow> string \<Rightarrow> Buffer \<times> string" where
  "column_loop d i [] buf pb = (buf, pb)"
| "column_loop d i (col # cols) buf pb =
     (let buf1 = (if i > 0 then WriteString '','' buf else buf);
          pb1 = (if i > 0 then pb @ '','' else pb);
          buf2 = WriteString (QuoteIdent d col) buf1;
          pb2 = pb1 @ placeholder
      in column_loop d (Suc i) cols buf2 pb2)"

text \<open>
  The loop over \<open>b.Value\<close> (lines 61-74): it breaks at the first index
  \<open>i >= b.RunLen\<close>, counts the rows written in \<open>runnum\<close>, and writes for each
  row the placeholder group and the row's values.
\<close>

fun value_loop :: "int \<Rightarrow> string \<Rightarrow> nat \<Rightarrow> val list list \<Rightarrow> nat \<Rightarrow> Buffer \<Rightarrow> nat \<times> Buffer" where
  "value_loop rl ps i [] runnum buf = (runnum, buf)"
| "value_loop rl ps i (tuple # rest) runnum buf =
     (if int i \<ge> rl then (runnum, buf)
      else
        (let runnum1 = runnum + 1;
             buf1 = (if i > 0 then WriteString '', '' buf else buf);
             buf2 = WriteString ps buf1;
             buf3 = WriteValue tuple buf2
         in value_loop rl ps (Suc i) rest runnum1 buf3))"

text \<open>The loop over \<open>b.ReturnColumn\<close> (lines 79-84).\<close>

fun returning_loop :: "Dialect \<Rightarrow> nat \<Rightarrow> string list \<Rightarrow> Buffer \<Rightarrow> Buffer" where
  "returning_loop d i [] buf = buf"
| "returning_loop d i (col # cols) buf =
     (let buf1 = (if i > 0 then WriteString '','' buf else buf);
          buf2 = WriteString (QuoteIdent d col) buf1
      in returning_loop d (Suc i) cols buf2)"

text \<open>
  \<open>InsertStmt.Build\<close>. The statement is passed by pointer and changed in place
  (\<open>RunLen\<close>, \<open>Value\<close>), so the model returns the statement after the call
  together with the outcome.
\<close>

definition InsertStmt_Build :: "rawBuild \<Rightarrow> Dialect \<Rightarrow> InsertStmt \<Rightarrow> Buffer \<Rightarrow> InsertStmt \<times> Buffer \<times> error option" where
  "InsertStmt_Build rb d b0 buf0 =
     (let b = (if RunLen b0 = 0 then b0\<lparr>RunLen := 1000\<rparr> else b0) in
      if Query (raw_i b) \<noteq> [] then
        (case rb (raw_i b) d buf0 of (buf, err) \<Rightarrow> (b, buf, err))
      else if Table b = [] then (b, buf0, Some ErrTableNotSpecified)
      else if length (Column b) = 0 then (b, buf0, Some ErrColumnNotSpecified)
      else
        (let buf1 = WriteString ''INSERT INTO '' buf0;
             buf2 = WriteString (QuoteIdent d (Table b)) buf1;
             pb1 = ''('';
             buf3 = WriteString '' ('' buf2;
             (buf4, pb2) = column_loop d 0 (Column b) buf3 pb1;
             buf5 = WriteString '') VALUES '' buf4;
             placeholderStr = pb2 @ '')'';
             (runnum, buf6) = value_loop (RunLen b) placeholderStr 0 (Value b) 0 buf5;
             b1 = b\<lparr>Value := drop runnum (Value b)\<rparr>;
             buf7 = (if length (ReturnColumn b1) > 0
                     then returning_loop d 0 (ReturnColumn b1) (WriteString '' RETURNING '' buf6)
                     else buf6)
         in (b1, buf7, None)))"

text \<open>The rows a call of \<open>Build\<close> consumed: those pending before and no longer after.\<close>

definition rows_emitted :: "InsertStmt \<Rightarrow> InsertStmt \<Rightarrow> nat" where
  "rows_emitted b b' = length (Value b) - length (Value b')"

text \<open>
  Repeated compilation of one statement, each call against a fresh buffer, as the
  execution loop does it: the statement after \<open>n\<close> calls of \<open>Build\<close>.
\<close>

fun Build_repeat :: "rawBuild \<Rightarrow> Dialect \<Rightarrow> nat \<Rightarrow> InsertStmt \<Rightarrow> InsertStmt" where
  "Build_repeat rb d 0 b = b"
| "Build_repeat rb d (Suc n) b = fst (InsertStmt_Build rb d (Build_repeat rb d n b) NewBuffer)"

text \<open>The number of placeholder tokens in a text.\<close>

definition count_placeholders :: "string \<Rightarrow> nat" where
  "count_placeholders s = length (filter (\<lambda>c. c = CHR ''?'') s)"

text \<open>
  The texts the three loops write, as functions of their input: quoted identifiers
  joined by commas, placeholders joined by commas, and \<open>k\<close> placeholder groups
  joined by a comma and a space.
\<close>

fun cols_text :: "Dialect \<Rightarrow> nat \<Rightarrow> string list \<Rightarrow> string" where
  "cols_text d i [] = []"
| "cols_text d i (col # cols) =
     (if i > 0 then '','' else []) @ QuoteIdent d col @ cols_text d (Suc i) cols"

fun ph_text :: "nat \<Rightarrow> string list \<Rightarrow> string" where
  "ph_text i [] = []"
| "ph_text i (col # cols) = (if i > 0 then '','' else []) @ placeholder @ ph_text (Suc i) cols"

fun groups_text :: "string \<Rightarrow> nat \<Rightarrow> nat \<Rightarrow> string" where
  "groups_text ps i 0 = []"
| "groups_text ps i (Suc k) = (if i > 0 then '', '' else []) @ ps @ groups_text ps (Suc i) k"

text \<open>The effective batch cap of a statement and the number of rows one call compiles.\<close>

definition effective_cap :: "InsertStmt \<Rightarrow> int" where
  "effective_cap b = (if RunLen b = 0 then 1000 else RunLen b)"

definition chunk_len :: "InsertStmt \<Rightarrow> nat" where
  "chunk_len b = min (nat (effective_cap b)) (length (Value b))"

section \<open>UpdateStmt\<close>

text \<open>
  Modelled from the spec: the condition combinator \<open>And\<close> is declared outside the
  given sources. It compiles each child in order, joins them with \<open>AND\<close>, wraps the
  group in parentheses when it has more than one child, and a child that fails aborts
  the group with that child's error. A panic of a child passes through.
\<close>

fun and_loop :: "Dialect \<Rightarrow> nat \<Rightarrow> Builder list \<Rightarrow> Buffer \<Rightarrow> build_result" where
  "and_loop d i [] buf = Returned buf None"
| "and_loop d i (c # cs) buf =
     (case c d (if i > 0 then WriteString '' AND '' buf else buf) of
        Returned buf1 None \<Rightarrow> and_loop d (Suc i) cs buf1
      | Returned buf1 (Some err) \<Rightarrow> Returned buf1 (Some err)
      | Panicked buf1 \<Rightarrow> Panicked buf1)"

definition And :: "Builder list \<Rightarrow> Builder" where
  "And cond d buf =
     (if length cond > 1 then
        (case and_loop d 0 cond (WriteString ''('' buf) of
           Returned buf1 None \<Rightarrow> Returned (WriteString '')'' buf1) None
         | r \<Rightarrow> r)
      else and_loop d 0 cond buf)"

text \<open>
  \<open>strconv.FormatInt(n, 10)\<close> of the Go standard library: the decimal digits, with
  a minus sign for a negative number.
\<close>

fun digits :: "nat \<Rightarrow> string" where
  "digits n = (if n < 10 then [''0123456789'' ! n]
               else digits (n div 10) @ [''0123456789'' ! (n mod 10)])"

definition FormatInt :: "int \<Rightarrow> string" where
  "FormatInt n = (if n < 0 then ''-'' @ digits (nat (- n)) else digits (nat n))"

text \<open>
  The struct \<open>UpdateStmt\<close>. \<open>Value\<close> is a Go map; the compiler ranges over it
  once, in an order the runtime chooses, so the model holds the map as the list of its
  entries in the order of that iteration (keys distinct), and what is proved holds for
  every order. \<open>WhereCond\<close> is a list of builders: anything with a \<open>Build\<close>
  method, an \<open>UpdateStmt\<close> included. \<open>LimitCount\<close> is an \<open>int64\<close>, only
  compared with zero and printed.
\<close>

record UpdateStmt =
  Dialect_u :: Dialect
  raw_u :: raw
  Table_u :: string
  Value_u :: "(string \<times> val) list"
  WhereCond :: "Builder list"
  LimitCount :: int

text \<open>
  The loop over \<open>b.Value\<close> (lines 42-57). In the \<open>raw\<close> case of the type switch
  the source calls \<open>v.Build(d, buf)\<close> as a statement: what it returns is dropped.
\<close>

fun set_loop :: "rawBuild \<Rightarrow> Dialect \<Rightarrow> nat \<Rightarrow> (string \<times> val) list \<Rightarrow> Buffer \<Rightarrow> Buffer" where
  "set_loop rb d i [] buf = buf"
| "set_loop rb d i ((col, v) # rest) buf =
     (let buf1 = (if i > 0 then WriteString '', '' buf else buf);
          buf2 = WriteString (QuoteIdent d col) buf1;
          buf3 = WriteString '' = '' buf2;
          buf4 = (case v of
                    VRaw r \<Rightarrow> fst (rb r d buf3)
                  | _ \<Rightarrow> WriteValue [v] (WriteString placeholder buf3))
      in set_loop rb d (i + 1) rest buf4)"

text \<open>
  \<open>UpdateStmt.Build\<close>. It does not change the statement. With an empty
  \<open>WhereCond\<close> it reaches \<open>panic\<close> (line 66; the message is the Chinese for
  "there is no condition") after the SET clause has been written.
\<close>

definition UpdateStmt_Build :: "rawBuild \<Rightarrow> UpdateStmt \<Rightarrow> Builder" where
  "UpdateStmt_Build rb b d buf0 =
     (if Query (raw_u b) \<noteq> [] then
        (case rb (raw_u b) d buf0 of (buf, err) \<Rightarrow> Returned buf err)
      else if Table_u b = [] then Returned buf0 (Some ErrTableNotSpecified)
      else if length (Value_u b) = 0 then Returned buf0 (Some ErrColumnNotSpecified)
      else
        (let buf1 = WriteString ''UPDATE '' buf0;
             buf2 = WriteString (QuoteIdent d (Table_u b)) buf1;
             buf3 = WriteString '' SET '' buf2;
             buf4 = set_loop rb d 0 (Value_u b) buf3
         in if length (WhereCond b) > 0 then
              (case And (WhereCond b) d (WriteString '' WHERE '' buf4) of
                 Returned buf5 (Some err) \<Rightarrow> Returned buf5 (Some err)
               | Panicked buf5 \<Rightarrow> Panicked buf5
               | Returned buf5 None \<Rightarrow>
                   Returned
                     (if LimitCount b \<ge> 0
                      then WriteString (FormatInt (LimitCount b)) (WriteString '' LIMIT '' buf5)
                      else buf5)
                     None)
            else Panicked buf4))"



section \<open>Execution of an INSERT\<close>

text \<open>
  Go's \<open>sql.Result\<close>: each of its two methods returns a number or an error (a
  driver may not support generated ids). The \<open>int64\<close> values are only copied.
\<close>

record Result =
  LastInsertId :: "error + int"
  RowsAffected :: "error + int"

text \<open>
  The runner is the external collaborator that sends a compiled statement to the
  backend: from its state \<open>'db\<close>, the text and the arguments it gives a result or
  an error, and its next state. The world of an execution is that state together with
  the record of every call made to the runner, with what the runner answered.
\<close>

type_synonym 'db runner = "'db \<Rightarrow> string \<Rightarrow> val list \<Rightarrow> (error + Result) \<times> 'db"

type_synonym call = "string \<times> val list \<times> (error + Result)"

record 'db world =
  db :: 'db
  calls :: "call list"




text \<open>
  Modelled from the spec: the helper \<open>exec\<close> is declared outside the given sources.
  It compiles the builder with its dialect against a fresh buffer; a compile error is
  returned and nothing is sent; otherwise the compiled text and arguments are handed to
  the runner, whose result or error is returned as it is. The statement is passed by
  pointer, so the model returns it as \<open>Build\<close> left it.
\<close>

definition exec :: "rawBuild \<Rightarrow> 'db runner \<Rightarrow> InsertStmt \<Rightarrow> 'db world \<Rightarrow> InsertStmt \<times> 'db world \<times> (error + Result)" where
  "exec rb run b w =
     (case InsertStmt_Build rb (Dialect_i b) b NewBuffer of
        (b1, buf, Some e) \<Rightarrow> (b1, w, Inl e)
      | (b1, buf, None) \<Rightarrow>
          (case run (db w) (text_of buf) (args_of buf) of
             (res, db1) \<Rightarrow>
               (b1, \<lparr>db = db1, calls = calls w @ [(text_of buf, args_of buf, res)]\<rparr>, res)))"

text \<open>
  \<open>InsertStmt.ExecContext\<close> (lines 244-261). The loop may run forever (a negative
  \<open>RunLen\<close> compiles no row, so the pending list never shrinks), hence the result
  is an option and \<open>None\<close> stands for not returning. The state of the loop is the
  statement, the store \<open>st\<close> that holds the caller's \<open>int64\<close> cells (the target
  of \<open>RecordID\<close>), the world, and the variables \<open>result\<close> and \<open>err\<close>. It
  returns the pair \<open>(result, error)\<close> of the source with the final statement,
  store and world.
\<close>

partial_function (option) ExecContext_loop ::
  "rawBuild \<Rightarrow> 'db runner \<Rightarrow> InsertStmt \<Rightarrow> (nat \<Rightarrow> int) \<Rightarrow> 'db world \<Rightarrow> Result option \<Rightarrow> error option
     \<Rightarrow> (Result option \<times> error option \<times> InsertStmt \<times> (nat \<Rightarrow> int) \<times> 'db world) option" where
  "ExecContext_loop rb run b st w result err =
     (if length (Value b) > 0 \<and> err = None then
        (case exec rb run b w of
           (b1, w1, Inl e) \<Rightarrow> Some (None, Some e, b1, st, w1)
         | (b1, w1, Inr r) \<Rightarrow>
             (case RecordID b1 of
                Some p \<Rightarrow>
                  ExecContext_loop rb run (b1\<lparr>RecordID := None\<rparr>)
                    (case LastInsertId r of Inr ident \<Rightarrow> st(p := ident) | Inl e \<Rightarrow> st)
                    w1 (Some r) None
              | None \<Rightarrow> ExecContext_loop rb run b1 st w1 (Some r) None))
      else Some (result, None, b, st, w))"

definition ExecContext ::
  "rawBuild \<Rightarrow> 'db runner \<Rightarrow> InsertStmt \<Rightarrow> (nat \<Rightarrow> int) \<Rightarrow> 'db world
     \<Rightarrow> (Result option \<times> error option \<times> InsertStmt \<times> (nat \<Rightarrow> int) \<times> 'db world) option" where
  "ExecContext rb run b st w = ExecContext_loop rb run b st w None None"

text \<open>\<open>Session.InsertBySql\<close> (lines 116-132), for a session with dialect \<open>d\<close>.\<close>

definition InsertBySql :: "Dialect \<Rightarrow> string \<Rightarrow> val list \<Rightarrow> InsertStmt" where
  "InsertBySql d query value =
     \<lparr>Dialect_i = d, raw_i = Raw query value, Table = [], Column = [], Value = [],
      RunLen = 0, ReturnColumn = [], RecordID = None\<rparr>"


text \<open>
  What one compile-and-execute round compiles from a statement: the buffer and the
  error of \<open>Build\<close> with the statement's dialect on a fresh buffer.
\<close>

definition compiled :: "rawBuild \<Rightarrow> InsertStmt \<Rightarrow> Buffer \<times> error option" where
  "compiled rb b = snd (InsertStmt_Build rb (Dialect_i b) b NewBuffer)"





section \<open>GetSQL\<close>

text \<open>
  \<open>GetSQL\<close> works on pointers: \<open>b1 := *b\<close> copies the struct into a new
  variable and \<open>Build\<close> then runs through the pointer \<open>b2 := &b1\<close>. The
  statements live in a heap, addressed by numbers. The copy is shallow, so its slices
  share their elements with the original's; \<open>Build\<close> never stores into an element
  of a slice (it only replaces the fields \<open>RunLen\<close> and \<open>Value\<close>), so a
  slice is held as the list of its elements.
\<close>

type_synonym heap = "nat \<Rightarrow> InsertStmt"

text \<open>\<open>Build\<close> called through the pointer \<open>p\<close>.\<close>

definition Build_at :: "rawBuild \<Rightarrow> Dialect \<Rightarrow> nat \<Rightarrow> heap \<Rightarrow> Buffer \<Rightarrow> heap \<times> Buffer \<times> error option" where
  "Build_at rb d p h buf =
     (case InsertStmt_Build rb d (h p) buf of (b1, buf1, err) \<Rightarrow> (h(p := b1), buf1, err))"

text \<open>
  Modelled from the spec: the helper \<open>getSQL\<close> is declared outside the given
  sources. Retrieval runs the compilation against a disposable buffer and returns the
  buffer's text with the compilation's error.
\<close>

definition getSQL :: "rawBuild \<Rightarrow> nat \<Rightarrow> Dialect \<Rightarrow> heap \<Rightarrow> heap \<times> string \<times> error option" where
  "getSQL rb p d h =
     (case Build_at rb d p h NewBuffer of (h1, buf, err) \<Rightarrow> (h1, text_of buf, err))"

text \<open>
  \<open>InsertStmt.GetSQL\<close> (lines 228-232) for the statement at \<open>b\<close>; \<open>b2\<close> is
  the address the runtime gives the local variable \<open>b1\<close>.
\<close>

definition GetSQL :: "rawBuild \<Rightarrow> nat \<Rightarrow> nat \<Rightarrow> heap \<Rightarrow> heap \<times> string \<times> error option" where
  "GetSQL rb b b2 h =
     (let h1 = h(b2 := h b)
      in getSQL rb b2 (Dialect_i (h1 b2)) h1)"

section \<open>Example inputs\<close>

text \<open>
  Modelled from the spec: a raw fragment (the \<open>Expr\<close> node) compiles its template
  verbatim and appends its arguments in order. This is the instance of the parameter
  \<open>rb\<close> used at concrete inputs.
\<close>

definition raw_Build :: rawBuild where
  "raw_Build r d buf = (WriteValue (Value_r r) (WriteString (Query r) buf), None)"

text \<open>A dialect that wraps identifiers in double quotes, as in the spec's scenario.\<close>

definition quote_dialect :: Dialect where
  "quote_dialect = \<lparr>QuoteIdent = (\<lambda>s. [CHR 0x22] @ s @ [CHR 0x22])\<rparr>"

text \<open>
  \<open>InsertInto("users").Columns("name","age").Values("a",1).Values("b",2)\<close> on a
  session with that dialect, with the batch cap given.
\<close>

definition users_insert :: "int \<Rightarrow> InsertStmt" where
  "users_insert cap =
     \<lparr>Dialect_i = quote_dialect, raw_i = Raw [] [], Table = ''users'',
      Column = [''name'', ''age''],
      Value = [[VStr ''a'', VInt 1], [VStr ''b'', VInt 2]],
      RunLen = cap, ReturnColumn = [], RecordID = None\<rparr>"

text \<open>
  A statement of 1001 pending rows with \<open>RunLen\<close> unset.
\<close>

definition bulk_insert :: InsertStmt where
  "bulk_insert = (users_insert 0)\<lparr>Value := replicate 1001 [VStr ''a'', VInt 1]\<rparr>"

text \<open>
  The same statement with a raw override set as well (the fields are exported, and
  \<open>InsertBySql\<close> sets the override).
\<close>

definition users_insert_raw :: InsertStmt where
  "users_insert_raw = (users_insert 1)\<lparr>raw_i := Raw ''INSERT INTO t DEFAULT VALUES'' []\<rparr>"

text \<open>
  \<open>InsertInto("users").Columns("name","age").Values("a")\<close>: a row that is shorter
  than the column list, which \<open>Values\<close> accepts as it accepts any tuple.
\<close>

definition users_insert_short :: InsertStmt where
  "users_insert_short = (users_insert 0)\<lparr>Value := [[VStr ''a'']]\<rparr>"

text \<open>\<open>Update(table)\<close>, on a session with the dialect above.\<close>

definition Update :: "string \<Rightarrow> UpdateStmt" where
  "Update table =
     \<lparr>Dialect_u = quote_dialect, raw_u = Raw [] [], Table_u = table, Value_u = [],
      WhereCond = [], LimitCount = - 1\<rparr>"

text \<open>\<open>Update("users").Set("age", 5)\<close>, with no call of \<open>Where\<close>.\<close>

definition users_update :: UpdateStmt where
  "users_update = (Update ''users'')\<lparr>Value_u := [(''age'', VInt 5)]\<rparr>"

text \<open>
  \<open>Update("users").Set("age", 5).Where(Update(""))\<close>: the condition is a builder
  that is itself an UPDATE with no table.
\<close>

definition users_update_nested :: UpdateStmt where
  "users_update_nested = users_update\<lparr>WhereCond := [UpdateStmt_Build raw_Build (Update [])]\<rparr>"


text \<open>
  Runners whose state counts the calls made. The first answers every call with a
  result whose generated id is 41 plus the count; the second fails on its second call;
  the third answers like a driver that does not support generated ids.
\<close>

definition ok_runner :: "nat runner" where
  "ok_runner n q a = (Inr \<lparr>LastInsertId = Inr (int n + 41), RowsAffected = Inr 1\<rparr>, Suc n)"



definition world0 :: "nat world" where
  "world0 = \<lparr>db = 0, calls = []\<rparr>"

text \<open>The text one row of the users statement compiles to, and with two rows.\<close>

definition users_sql :: string where
  "users_sql = ''INSERT INTO '' @ [CHR 0x22] @ ''users'' @ [CHR 0x22] @ '' ('' @ [CHR 0x22]
     @ ''name'' @ [CHR 0x22] @ '','' @ [CHR 0x22] @ ''age'' @ [CHR 0x22] @ '') VALUES (?,?)''"






text \<open>A heap whose every cell holds the users statement with \<open>RunLen\<close> unset.\<close>

definition users_heap :: heap where
  "users_heap = (\<lambda>p. users_insert 0)"

section \<open>Properties of the INSERT compiler\<close>

lemma value_loop_runnum:
  "fst (value_loop rl ps i rows n buf) = n + min (nat (rl - int i)) (length rows)"
proof (induction rows arbitrary: i n buf)
  case Nil
  show ?case by simp
next
  case (Cons tuple rest)
  show ?case
  proof (cases "int i \<ge> rl")
    case True
    then show ?thesis by simp
  next
    case False
    then have "nat (rl - int i) = Suc (nat (rl - int (Suc i)))" by simp
    with False Cons.IH [of "Suc i" "n + 1"] show ?thesis
      by (simp add: Let_def)
  qed
qed

lemma value_loop_buffer:
  "snd (value_loop rl ps i rows n buf) =
     buf\<lparr>text_of := text_of buf @ groups_text ps i (min (nat (rl - int i)) (length rows)),
         args_of := args_of buf @ concat (take (min (nat (rl - int i)) (length rows)) rows)\<rparr>"
proof (induction rows arbitrary: i n buf)
  case Nil
  show ?case by simp
next
  case (Cons tuple rest)
  show ?case
  proof (cases "int i \<ge> rl")
    case True
    then show ?thesis by simp
  next
    case False
    then have k: "nat (rl - int i) = Suc (nat (rl - int (Suc i)))" by simp
    show ?thesis
      using False
      by (simp add: Let_def Cons.IH k WriteString_def WriteValue_def del: of_nat_Suc)
  qed
qed

lemma column_loop_eq:
  "column_loop d i cols buf pb =
     (buf\<lparr>text_of := text_of buf @ cols_text d i cols\<rparr>, pb @ ph_text i cols)"
  by (induction cols arbitrary: i buf pb) (simp_all add: Let_def WriteString_def)

lemma returning_loop_eq:
  "returning_loop d i cols buf = buf\<lparr>text_of := text_of buf @ cols_text d i cols\<rparr>"
  by (induction cols arbitrary: i buf) (simp_all add: Let_def WriteString_def)

text \<open>The statement a call of \<open>Build\<close> leaves behind depends on the statement only.\<close>

lemma Build_stmt:
  "fst (InsertStmt_Build rb d b buf) =
     (if Query (raw_i b) \<noteq> [] \<or> Table b = [] \<or> Column b = []
      then b\<lparr>RunLen := effective_cap b\<rparr>
      else b\<lparr>RunLen := effective_cap b, Value := drop (chunk_len b) (Value b)\<rparr>)"
  by (simp add: InsertStmt_Build_def effective_cap_def chunk_len_def Let_def
      case_prod_beta value_loop_runnum)

text \<open>The normal path of \<open>Build\<close>, in closed form.\<close>

lemma Build_normal:
  assumes "Query (raw_i b) = []" and "Table b \<noteq> []" and "Column b \<noteq> []"
  shows "snd (InsertStmt_Build rb d b buf) =
       (buf\<lparr>text_of := text_of buf @ ''INSERT INTO '' @ QuoteIdent d (Table b) @ '' (''
            @ cols_text d 0 (Column b) @ '') VALUES ''
            @ groups_text (''('' @ ph_text 0 (Column b) @ '')'') 0 (chunk_len b)
            @ (if ReturnColumn b = [] then []
               else '' RETURNING '' @ cols_text d 0 (ReturnColumn b)),
            args_of := args_of buf @ concat (take (chunk_len b) (Value b))\<rparr>,
        None)"
  using assms
  by (simp add: InsertStmt_Build_def effective_cap_def chunk_len_def Let_def
      case_prod_beta value_loop_runnum value_loop_buffer column_loop_eq returning_loop_eq
      WriteString_def)

lemma effective_cap_Build:
  "effective_cap (fst (InsertStmt_Build rb d b buf)) = effective_cap b"
  by (simp add: Build_stmt) (simp add: effective_cap_def)

lemma RunLen_Build: "RunLen (fst (InsertStmt_Build rb d b buf)) = effective_cap b"
  by (simp add: Build_stmt)

lemma effective_cap_Build_repeat:
  "effective_cap (Build_repeat rb d n b) = effective_cap b"
  by (induction n) (simp_all add: effective_cap_Build)

lemma Value_Build:
  "Value (fst (InsertStmt_Build rb d b buf)) =
     drop (rows_emitted b (fst (InsertStmt_Build rb d b buf))) (Value b)"
  by (simp add: Build_stmt rows_emitted_def chunk_len_def)

lemma rows_emitted_Build:
  "rows_emitted b (fst (InsertStmt_Build rb d b buf)) =
     (if Query (raw_i b) \<noteq> [] \<or> Table b = [] \<or> Column b = [] then 0 else chunk_len b)"
  by (simp add: Build_stmt rows_emitted_def chunk_len_def)

lemma args_Build:
  assumes "Query (raw_i b) = []"
  shows "args_of (fst (snd (InsertStmt_Build rb d b buf))) =
     args_of buf @ concat (take (rows_emitted b (fst (InsertStmt_Build rb d b buf))) (Value b))"
proof (cases "Table b = [] \<or> Column b = []")
  case True
  with assms show ?thesis
    by (auto simp add: rows_emitted_def InsertStmt_Build_def Let_def)
next
  case False
  with assms show ?thesis
    by (simp add: rows_emitted_Build Build_normal)
qed

lemma Build_repeat_fields:
  "raw_i (Build_repeat rb d n b) = raw_i b \<and> Table (Build_repeat rb d n b) = Table b \<and>
   Column (Build_repeat rb d n b) = Column b \<and>
   ReturnColumn (Build_repeat rb d n b) = ReturnColumn b"
  by (induction n) (simp_all add: Build_stmt)

text \<open>
  C8. When \<open>RunLen\<close> is zero at the first call of \<open>Build\<close>, that call and every
  later one (the call number \<open>n + 1\<close>, against any buffer) run with the batch cap
  1000: the field holds 1000 afterwards, and the call compiles exactly
  \<open>min 1000 r\<close> of the \<open>r\<close> rows pending (none on the raw-override and error
  paths), so at most 1000; these are the first rows of the pending list, their values
  are what the call appends to the arguments, and the rest stays pending.
\<close>

theorem default_batch_cap:
  assumes "RunLen b = 0"
  shows "effective_cap (Build_repeat rb d n b) = 1000 \<and>
         RunLen (fst (InsertStmt_Build rb d (Build_repeat rb d n b) buf)) = 1000 \<and>
         rows_emitted (Build_repeat rb d n b)
             (fst (InsertStmt_Build rb d (Build_repeat rb d n b) buf)) =
           (if Query (raw_i b) \<noteq> [] \<or> Table b = [] \<or> Column b = [] then 0
            else min 1000 (length (Value (Build_repeat rb d n b)))) \<and>
         rows_emitted (Build_repeat rb d n b)
           (fst (InsertStmt_Build rb d (Build_repeat rb d n b) buf)) \<le> 1000 \<and>
         Value (fst (InsertStmt_Build rb d (Build_repeat rb d n b) buf)) =
           drop (rows_emitted (Build_repeat rb d n b)
                  (fst (InsertStmt_Build rb d (Build_repeat rb d n b) buf)))
             (Value (Build_repeat rb d n b)) \<and>
         (Query (raw_i b) = [] \<longrightarrow>
            args_of (fst (snd (InsertStmt_Build rb d (Build_repeat rb d n b) buf))) =
              args_of buf @
              concat (take (rows_emitted (Build_repeat rb d n b)
                             (fst (InsertStmt_Build rb d (Build_repeat rb d n b) buf)))
                        (Value (Build_repeat rb d n b))))"
proof -
  let ?bn = "Build_repeat rb d n b"
  have cap: "effective_cap ?bn = 1000"
    using assms by (simp add: effective_cap_Build_repeat) (simp add: effective_cap_def)
  have fields: "raw_i ?bn = raw_i b" "Table ?bn = Table b" "Column ?bn = Column b"
    by (simp_all add: Build_repeat_fields)
  have len: "chunk_len ?bn = min 1000 (length (Value ?bn))"
    by (simp add: chunk_len_def cap)
  have emitted: "rows_emitted ?bn (fst (InsertStmt_Build rb d ?bn buf)) =
      (if Query (raw_i b) \<noteq> [] \<or> Table b = [] \<or> Column b = [] then 0
       else min 1000 (length (Value ?bn)))"
    by (simp add: rows_emitted_Build fields len)
  then have le: "rows_emitted ?bn (fst (InsertStmt_Build rb d ?bn buf)) \<le> 1000"
    by simp
  have args: "Query (raw_i b) = [] \<longrightarrow>
      args_of (fst (snd (InsertStmt_Build rb d ?bn buf))) =
        args_of buf @
        concat (take (rows_emitted ?bn (fst (InsertStmt_Build rb d ?bn buf))) (Value ?bn))"
    using args_Build [of ?bn rb d buf] by (simp add: fields)
  have run_len: "RunLen (fst (InsertStmt_Build rb d ?bn buf)) = 1000"
    by (simp add: RunLen_Build cap)
  from cap run_len emitted le Value_Build [of rb d ?bn buf] args show ?thesis
    by blast
qed

theorem default_batch_cap_witness:
  "RunLen bulk_insert = 0 \<and> Query (raw_i bulk_insert) = [] \<and>
   length (Value bulk_insert) = 1001 \<and>
   RunLen (fst (InsertStmt_Build raw_Build quote_dialect bulk_insert NewBuffer)) = 1000 \<and>
   rows_emitted bulk_insert
     (fst (InsertStmt_Build raw_Build quote_dialect bulk_insert NewBuffer)) = 1000 \<and>
   length (Value (fst (InsertStmt_Build raw_Build quote_dialect bulk_insert NewBuffer))) = 1 \<and>
   length (args_of (fst (snd (InsertStmt_Build raw_Build quote_dialect bulk_insert NewBuffer))))
     = 2000 \<and>
   rows_emitted (Build_repeat raw_Build quote_dialect 1 bulk_insert)
     (fst (InsertStmt_Build raw_Build quote_dialect
        (Build_repeat raw_Build quote_dialect 1 bulk_insert) NewBuffer)) = 1"
proof -
  have pending: "Value (Build_repeat raw_Build quote_dialect 1 bulk_insert) =
      drop 1000 (Value bulk_insert)"
    by (simp add: Build_stmt bulk_insert_def users_insert_def effective_cap_def chunk_len_def)
  show ?thesis
    using default_batch_cap [of bulk_insert raw_Build quote_dialect 0 NewBuffer]
      default_batch_cap [of bulk_insert raw_Build quote_dialect 1 NewBuffer]
    by (simp add: pending) (simp add: bulk_insert_def users_insert_def NewBuffer_def length_concat sum_list_replicate)
qed

lemma drop_min_length: "drop (min c (length xs)) xs = drop c xs"
  by (simp add: min_def)

lemma take_min_length: "take (min c (length xs)) xs = take c xs"
  by (simp add: min_def)

lemma Value_Build_repeat:
  assumes "Query (raw_i b) = []" and "Table b \<noteq> []" and "Column b \<noteq> []"
  shows "Value (Build_repeat rb d n b) = drop (n * nat (effective_cap b)) (Value b)"
proof (induction n)
  case 0
  show ?case by simp
next
  case (Suc n)
  let ?bn = "Build_repeat rb d n b"
  have "Value (Build_repeat rb d (Suc n) b) = drop (chunk_len ?bn) (Value ?bn)"
    using assms by (simp add: Build_stmt Build_repeat_fields)
  also have "\<dots> = drop (nat (effective_cap b)) (Value ?bn)"
    by (simp add: chunk_len_def drop_min_length effective_cap_Build_repeat)
  also have "\<dots> = drop (Suc n * nat (effective_cap b)) (Value b)"
    by (simp add: Suc.IH add.commute)
  finally show ?case .
qed

text \<open>
  C2, as the claim states it, fails for a statement that has a raw override besides a
  table, columns and two pending rows: \<open>Build\<close> delegates to the override, compiles
  no row and leaves the pending list as it was, while the cap is 1.
\<close>

theorem chunk_consumption_counterexample:
  "Table users_insert_raw \<noteq> [] \<and> Column users_insert_raw \<noteq> [] \<and>
   length (Value users_insert_raw) = 2 \<and> effective_cap users_insert_raw = 1 \<and>
   rows_emitted users_insert_raw
     (fst (InsertStmt_Build raw_Build quote_dialect users_insert_raw NewBuffer)) = 0 \<and>
   Value (fst (InsertStmt_Build raw_Build quote_dialect users_insert_raw NewBuffer)) =
     Value users_insert_raw \<and>
   args_of (fst (snd (InsertStmt_Build raw_Build quote_dialect users_insert_raw NewBuffer)))
     = []"
  by (simp add: users_insert_raw_def users_insert_def InsertStmt_Build_def raw_Build_def
      NewBuffer_def WriteString_def WriteValue_def rows_emitted_def effective_cap_def)

text \<open>
  C2, amended. For a statement with no raw override, a table and columns, with cap
  \<open>c\<close> (the effective batch cap, a negative one counting as zero): the call number
  \<open>n + 1\<close> of \<open>Build\<close> finds the original rows from position \<open>n * c\<close> on
  pending, returns nil, consumes \<open>min c r\<close> of the \<open>r\<close> rows pending, leaves the
  original rows from position \<open>(n + 1) * c\<close> on pending, and appends to the buffer
  exactly the values of the \<open>n\<close>-th \<open>c\<close>-sized slice of the original rows, in
  order.
\<close>

theorem chunk_consumption:
  assumes "Query (raw_i b) = []" and "Table b \<noteq> []" and "Column b \<noteq> []"
  shows "Value (Build_repeat rb d n b) = drop (n * nat (effective_cap b)) (Value b) \<and>
         (\<exists>buf'. snd (InsertStmt_Build rb d (Build_repeat rb d n b) buf) = (buf', None)) \<and>
         rows_emitted (Build_repeat rb d n b)
             (fst (InsertStmt_Build rb d (Build_repeat rb d n b) buf)) =
           min (nat (effective_cap b)) (length (Value (Build_repeat rb d n b))) \<and>
         Value (fst (InsertStmt_Build rb d (Build_repeat rb d n b) buf)) =
           drop (Suc n * nat (effective_cap b)) (Value b) \<and>
         args_of (fst (snd (InsertStmt_Build rb d (Build_repeat rb d n b) buf))) =
           args_of buf @
           concat (take (nat (effective_cap b)) (drop (n * nat (effective_cap b)) (Value b)))"
proof -
  let ?bn = "Build_repeat rb d n b"
  let ?c = "nat (effective_cap b)"
  have normal: "Query (raw_i ?bn) = []" "Table ?bn \<noteq> []" "Column ?bn \<noteq> []"
    using assms by (simp_all add: Build_repeat_fields)
  have pending: "Value ?bn = drop (n * ?c) (Value b)"
    using assms by (rule Value_Build_repeat)
  have len: "chunk_len ?bn = min ?c (length (Value ?bn))"
    by (simp add: chunk_len_def effective_cap_Build_repeat)
  have emitted: "rows_emitted ?bn (fst (InsertStmt_Build rb d ?bn buf)) = min ?c (length (Value ?bn))"
    using normal by (simp add: rows_emitted_Build len)
  have "Value (fst (InsertStmt_Build rb d ?bn buf)) = Value (Build_repeat rb d (Suc n) b)"
    by (simp add: Build_stmt)
  then have after: "Value (fst (InsertStmt_Build rb d ?bn buf)) = drop (Suc n * ?c) (Value b)"
    using Value_Build_repeat [OF assms, of rb d "Suc n"] by simp
  have "args_of (fst (snd (InsertStmt_Build rb d ?bn buf))) =
          args_of buf @ concat (take (min ?c (length (Value ?bn))) (Value ?bn))"
    using normal(1) emitted args_Build [of ?bn rb d buf] by simp
  then have args: "args_of (fst (snd (InsertStmt_Build rb d ?bn buf))) =
          args_of buf @ concat (take ?c (drop (n * ?c) (Value b)))"
    unfolding take_min_length pending .
  have ret: "\<exists>buf'. snd (InsertStmt_Build rb d ?bn buf) = (buf', None)"
    using Build_normal [OF normal, of rb d buf] by blast
  from pending ret emitted after args show ?thesis by blast
qed

theorem chunk_consumption_witness:
  "Query (raw_i (users_insert 1)) = [] \<and> Table (users_insert 1) \<noteq> [] \<and>
   Column (users_insert 1) \<noteq> [] \<and>
   Value (Build_repeat raw_Build quote_dialect 1 (users_insert 1)) = [[VStr ''b'', VInt 2]] \<and>
   rows_emitted (Build_repeat raw_Build quote_dialect 1 (users_insert 1))
     (fst (InsertStmt_Build raw_Build quote_dialect
        (Build_repeat raw_Build quote_dialect 1 (users_insert 1)) NewBuffer)) = 1 \<and>
   Value (fst (InsertStmt_Build raw_Build quote_dialect
        (Build_repeat raw_Build quote_dialect 1 (users_insert 1)) NewBuffer)) = [] \<and>
   args_of (fst (snd (InsertStmt_Build raw_Build quote_dialect
        (Build_repeat raw_Build quote_dialect 1 (users_insert 1)) NewBuffer))) =
     [VStr ''b'', VInt 2]"
  using chunk_consumption [of "users_insert 1" raw_Build quote_dialect 1 NewBuffer]
  by (simp add: users_insert_def effective_cap_def NewBuffer_def)

lemma count_placeholders_simps:
  "count_placeholders [] = 0"
  "count_placeholders (c # cs) = (if c = CHR ''?'' then 1 else 0) + count_placeholders cs"
  "count_placeholders (xs @ ys) = count_placeholders xs + count_placeholders ys"
  by (simp_all add: count_placeholders_def)

lemma count_cols_text:
  assumes "\<forall>c\<in>set cols. count_placeholders (QuoteIdent d c) = 0"
  shows "count_placeholders (cols_text d i cols) = 0"
  using assms by (induction cols arbitrary: i) (simp_all add: count_placeholders_simps)

lemma count_ph_text: "count_placeholders (ph_text i cols) = length cols"
  by (induction cols arbitrary: i) (simp_all add: count_placeholders_simps placeholder_def)

lemma count_groups_text:
  "count_placeholders (groups_text ps i k) = k * count_placeholders ps"
  by (induction k arbitrary: i) (simp_all add: count_placeholders_simps)

lemma length_concat_aligned:
  assumes "\<forall>t\<in>set rows. length t = n"
  shows "length (concat rows) = length rows * n"
  using assms by (induction rows) simp_all

text \<open>
  C4, as the claim states it, fails for a statement with two columns and one pending
  row of a single value: \<open>Build\<close> returns nil, writes two placeholders and appends
  one argument.
\<close>

theorem placeholder_argument_counterexample:
  "Column users_insert_short \<noteq> [] \<and> Value users_insert_short = [[VStr ''a'']] \<and>
   snd (InsertStmt_Build raw_Build quote_dialect users_insert_short NewBuffer) =
     (\<lparr>text_of = ''INSERT INTO '' @ [CHR 0x22] @ ''users'' @ [CHR 0x22] @ '' (''
                   @ [CHR 0x22] @ ''name'' @ [CHR 0x22] @ '','' @ [CHR 0x22] @ ''age''
                   @ [CHR 0x22] @ '') VALUES (?,?)'',
       args_of = [VStr ''a'']\<rparr>, None) \<and>
   count_placeholders (text_of (fst (snd (InsertStmt_Build raw_Build quote_dialect users_insert_short NewBuffer)))) = 2 \<and>
   length (args_of (fst (snd (InsertStmt_Build raw_Build quote_dialect users_insert_short NewBuffer)))) = 1"
  by (simp add: users_insert_short_def users_insert_def InsertStmt_Build_def Let_def
      quote_dialect_def NewBuffer_def WriteString_def WriteValue_def placeholder_def
      count_placeholders_def)

text \<open>
  C4, amended. For a statement with no raw override whose quoted identifiers contain
  no placeholder token, one call of \<open>Build\<close> appends to the buffer's text a text
  with exactly \<open>length Column\<close> times (rows compiled by this call) placeholder
  tokens, and appends to the buffer's arguments the values of those rows, flattened
  row by row in column order; when every pending row has as many values as there are
  columns, the number of placeholders written equals the number of arguments appended.
\<close>

theorem placeholder_argument_sync:
  assumes "Query (raw_i b) = []"
    and "count_placeholders (QuoteIdent d (Table b)) = 0"
    and "\<forall>c\<in>set (Column b) \<union> set (ReturnColumn b). count_placeholders (QuoteIdent d c) = 0"
  shows "\<exists>emitted.
     text_of (fst (snd (InsertStmt_Build rb d b buf))) = text_of buf @ emitted \<and>
     count_placeholders emitted =
       length (Column b) * rows_emitted b (fst (InsertStmt_Build rb d b buf)) \<and>
     args_of (fst (snd (InsertStmt_Build rb d b buf))) =
       args_of buf @ concat (take (rows_emitted b (fst (InsertStmt_Build rb d b buf))) (Value b)) \<and>
     ((\<forall>t\<in>set (Value b). length t = length (Column b)) \<longrightarrow>
        count_placeholders emitted =
          length (concat (take (rows_emitted b (fst (InsertStmt_Build rb d b buf))) (Value b))))"
proof (cases "Table b = [] \<or> Column b = []")
  case True
  with assms(1) have "text_of (fst (snd (InsertStmt_Build rb d b buf))) = text_of buf @ []"
    and "rows_emitted b (fst (InsertStmt_Build rb d b buf)) = 0"
    and "args_of (fst (snd (InsertStmt_Build rb d b buf))) = args_of buf"
    by (auto simp add: rows_emitted_def InsertStmt_Build_def Let_def)
  then show ?thesis
    by (simp add: count_placeholders_simps)
next
  case False
  let ?k = "chunk_len b"
  let ?emitted = "''INSERT INTO '' @ QuoteIdent d (Table b) @ '' (''
            @ cols_text d 0 (Column b) @ '') VALUES ''
            @ groups_text (''('' @ ph_text 0 (Column b) @ '')'') 0 ?k
            @ (if ReturnColumn b = [] then []
               else '' RETURNING '' @ cols_text d 0 (ReturnColumn b))"
  from False assms(1) have k: "rows_emitted b (fst (InsertStmt_Build rb d b buf)) = ?k"
    by (simp add: rows_emitted_Build)
  from False assms(1) have emit:
    "text_of (fst (snd (InsertStmt_Build rb d b buf))) = text_of buf @ ?emitted"
    by (simp add: Build_normal)
  have c1: "count_placeholders (cols_text d 0 (Column b)) = 0"
    using assms(3) by (simp add: count_cols_text)
  have c2: "count_placeholders (cols_text d 0 (ReturnColumn b)) = 0"
    using assms(3) by (simp add: count_cols_text)
  have cnt: "count_placeholders ?emitted = length (Column b) * ?k"
    using assms(2) c1 c2
    by (simp add: count_placeholders_simps count_groups_text count_ph_text)
  have args: "args_of (fst (snd (InsertStmt_Build rb d b buf))) =
      args_of buf @ concat (take ?k (Value b))"
    using assms(1) args_Build [of b rb d buf] k by simp
  have aligned: "length (concat (take ?k (Value b))) = length (Column b) * ?k"
    if "\<forall>t\<in>set (Value b). length t = length (Column b)"
  proof -
    from that have "\<forall>t\<in>set (take ?k (Value b)). length t = length (Column b)"
      by (auto dest: in_set_takeD)
    then have "length (concat (take ?k (Value b))) = length (take ?k (Value b)) * length (Column b)"
      by (rule length_concat_aligned)
    then show ?thesis by (simp add: chunk_len_def mult.commute)
  qed
  show ?thesis
    using emit cnt args aligned unfolding k by metis
qed

theorem placeholder_argument_sync_witness:
  "Query (raw_i (users_insert 1)) = [] \<and>
   count_placeholders (QuoteIdent quote_dialect (Table (users_insert 1))) = 0 \<and>
   list_all (\<lambda>c. count_placeholders (QuoteIdent quote_dialect c) = 0)
     (Column (users_insert 1) @ ReturnColumn (users_insert 1)) \<and>
   list_all (\<lambda>t. length t = length (Column (users_insert 1))) (Value (users_insert 1)) \<and>
   (\<exists>emitted.
     text_of (fst (snd (InsertStmt_Build raw_Build quote_dialect (users_insert 1) NewBuffer)))
       = emitted \<and>
     count_placeholders emitted = 2 \<and>
     args_of (fst (snd (InsertStmt_Build raw_Build quote_dialect (users_insert 1) NewBuffer)))
       = [VStr ''a'', VInt 1] \<and>
     count_placeholders emitted = length [VStr ''a'', VInt 1])"
  using placeholder_argument_sync [of "users_insert 1" quote_dialect raw_Build NewBuffer]
  by (simp add: users_insert_def quote_dialect_def count_placeholders_def NewBuffer_def
      Build_stmt rows_emitted_def chunk_len_def effective_cap_def)

section \<open>Properties of the UPDATE compiler\<close>





text \<open>
  C6, as the claim states it, fails for an UPDATE with a table and a value whose
  condition is an UPDATE with no table: \<open>Build\<close> returns the error
  \<open>ErrTableNotSpecified\<close> of the condition, although the statement's own table
  name is not empty, and the text up to the WHERE keyword and the argument have been
  emitted.
\<close>

theorem config_errors_counterexample:
  "Query (raw_u users_update_nested) = [] \<and> Table_u users_update_nested \<noteq> [] \<and>
   Value_u users_update_nested \<noteq> [] \<and>
   UpdateStmt_Build raw_Build users_update_nested quote_dialect NewBuffer =
     Returned \<lparr>text_of = ''UPDATE '' @ [CHR 0x22] @ ''users'' @ [CHR 0x22] @ '' SET ''
                  @ [CHR 0x22] @ ''age'' @ [CHR 0x22] @ '' = ? WHERE '',
               args_of = [VInt 5]\<rparr>
       (Some ErrTableNotSpecified)"
  by (simp add: users_update_nested_def users_update_def Update_def UpdateStmt_Build_def
      Let_def quote_dialect_def NewBuffer_def WriteString_def WriteValue_def placeholder_def
      And_def)

text \<open>
  C6, amended. With no raw override, \<open>Build\<close> of an INSERT and of an UPDATE returns
  \<open>ErrTableNotSpecified\<close> when the table name is empty, and otherwise
  \<open>ErrColumnNotSpecified\<close> when the column list (INSERT) or the value mapping
  (UPDATE) is empty, in both cases with the buffer as it was. An INSERT returns nil in
  every other case, so it returns each of the two errors exactly then. An UPDATE in
  every other case panics (no condition) or ends as the compilation of its conditions
  ends, run on the buffer that holds the UPDATE and SET text followed by the WHERE
  keyword: it returns the error that compilation returns, whatever it is, with that
  text emitted; it panics when that compilation panics; and it returns nil, after the
  LIMIT clause if there is one, when that compilation returns nil.
\<close>

theorem config_errors:
  "(Query (raw_i bi) = [] \<longrightarrow>
      (Table bi = [] \<longrightarrow>
         snd (InsertStmt_Build rb d bi buf) = (buf, Some ErrTableNotSpecified)) \<and>
      (Table bi \<noteq> [] \<and> Column bi = [] \<longrightarrow>
         snd (InsertStmt_Build rb d bi buf) = (buf, Some ErrColumnNotSpecified)) \<and>
      (Table bi \<noteq> [] \<and> Column bi \<noteq> [] \<longrightarrow>
         (\<exists>buf'. snd (InsertStmt_Build rb d bi buf) = (buf', None)))) \<and>
   (Query (raw_u bu) = [] \<longrightarrow>
      (Table_u bu = [] \<longrightarrow>
         UpdateStmt_Build rb bu d buf = Returned buf (Some ErrTableNotSpecified)) \<and>
      (Table_u bu \<noteq> [] \<and> Value_u bu = [] \<longrightarrow>
         UpdateStmt_Build rb bu d buf = Returned buf (Some ErrColumnNotSpecified)) \<and>
      (Table_u bu \<noteq> [] \<and> Value_u bu \<noteq> [] \<and> WhereCond bu = [] \<longrightarrow>
         (\<exists>buf'. UpdateStmt_Build rb bu d buf = Panicked buf')) \<and>
      (Table_u bu \<noteq> [] \<and> Value_u bu \<noteq> [] \<and> WhereCond bu \<noteq> [] \<longrightarrow>
         (case And (WhereCond bu) d
                 (WriteString '' WHERE '' (set_loop rb d 0 (Value_u bu)
                    (WriteString '' SET '' (WriteString (QuoteIdent d (Table_u bu))
                       (WriteString ''UPDATE '' buf))))) of
            Returned buf5 (Some err) \<Rightarrow>
              UpdateStmt_Build rb bu d buf = Returned buf5 (Some err)
          | Returned buf5 None \<Rightarrow>
              UpdateStmt_Build rb bu d buf =
                Returned
                  (if LimitCount bu \<ge> 0
                   then WriteString (FormatInt (LimitCount bu)) (WriteString '' LIMIT '' buf5)
                   else buf5)
                  None
          | Panicked buf5 \<Rightarrow> UpdateStmt_Build rb bu d buf = Panicked buf5)))"
proof -
  have insert_part: "Query (raw_i bi) = [] \<longrightarrow>
      (Table bi = [] \<longrightarrow>
         snd (InsertStmt_Build rb d bi buf) = (buf, Some ErrTableNotSpecified)) \<and>
      (Table bi \<noteq> [] \<and> Column bi = [] \<longrightarrow>
         snd (InsertStmt_Build rb d bi buf) = (buf, Some ErrColumnNotSpecified)) \<and>
      (Table bi \<noteq> [] \<and> Column bi \<noteq> [] \<longrightarrow>
         (\<exists>buf'. snd (InsertStmt_Build rb d bi buf) = (buf', None)))"
    by (auto simp add: Build_normal) (simp_all add: InsertStmt_Build_def Let_def)
  have update_errors: "Query (raw_u bu) = [] \<longrightarrow>
      (Table_u bu = [] \<longrightarrow>
         UpdateStmt_Build rb bu d buf = Returned buf (Some ErrTableNotSpecified)) \<and>
      (Table_u bu \<noteq> [] \<and> Value_u bu = [] \<longrightarrow>
         UpdateStmt_Build rb bu d buf = Returned buf (Some ErrColumnNotSpecified)) \<and>
      (Table_u bu \<noteq> [] \<and> Value_u bu \<noteq> [] \<and> WhereCond bu = [] \<longrightarrow>
         (\<exists>buf'. UpdateStmt_Build rb bu d buf = Panicked buf'))"
    by (simp add: UpdateStmt_Build_def Let_def)
  have update_where: "case And (WhereCond bu) d
                 (WriteString '' WHERE '' (set_loop rb d 0 (Value_u bu)
                    (WriteString '' SET '' (WriteString (QuoteIdent d (Table_u bu))
                       (WriteString ''UPDATE '' buf))))) of
            Returned buf5 (Some err) \<Rightarrow>
              UpdateStmt_Build rb bu d buf = Returned buf5 (Some err)
          | Returned buf5 None \<Rightarrow>
              UpdateStmt_Build rb bu d buf =
                Returned
                  (if LimitCount bu \<ge> 0
                   then WriteString (FormatInt (LimitCount bu)) (WriteString '' LIMIT '' buf5)
                   else buf5)
                  None
          | Panicked buf5 \<Rightarrow> UpdateStmt_Build rb bu d buf = Panicked buf5"
    if "Query (raw_u bu) = []" "Table_u bu \<noteq> []" "Value_u bu \<noteq> []" "WhereCond bu \<noteq> []"
    using that
    by (simp add: UpdateStmt_Build_def Let_def split: build_result.splits option.splits)
  from insert_part update_errors update_where show ?thesis by blast
qed

theorem config_errors_witness:
  "Query (raw_i ((users_insert 0)\<lparr>Table := []\<rparr>)) = [] \<and>
   Table ((users_insert 0)\<lparr>Table := []\<rparr>) = [] \<and>
   snd (InsertStmt_Build raw_Build quote_dialect ((users_insert 0)\<lparr>Table := []\<rparr>) NewBuffer) =
     (NewBuffer, Some ErrTableNotSpecified) \<and>
   Query (raw_u (Update ''users'')) = [] \<and> Table_u (Update ''users'') \<noteq> [] \<and>
   Value_u (Update ''users'') = [] \<and>
   UpdateStmt_Build raw_Build (Update ''users'') quote_dialect NewBuffer =
     Returned NewBuffer (Some ErrColumnNotSpecified)"
  using config_errors [of "(users_insert 0)\<lparr>Table := []\<rparr>" raw_Build quote_dialect NewBuffer
      "Update ''users''"]
  by (simp add: users_insert_def Update_def)

section \<open>Properties of the execution loop\<close>


lemma Build_keeps:
  "Dialect_i (fst (InsertStmt_Build rb d b buf)) = Dialect_i b"
  "RecordID (fst (InsertStmt_Build rb d b buf)) = RecordID b"
  by (simp_all add: Build_stmt)

lemma Build_repeat_keeps:
  "Dialect_i (Build_repeat rb d n b) = Dialect_i b"
  "RecordID (Build_repeat rb d n b) = RecordID b"
  by (induction n) (simp_all add: Build_keeps)































text \<open>
  C9. When no row is pending, \<open>ExecContext\<close> returns at once with a nil result and
  a nil error: the runner is not called (the world, with its record of calls, is as
  before) and statement and store are unchanged. A statement made by \<open>InsertBySql\<close>
  has no pending row, whatever its query and arguments, so this is what its execution
  does.
\<close>

theorem exec_without_rows:
  "(Value b = [] \<longrightarrow> ExecContext rb run b st w = Some (None, None, b, st, w)) \<and>
   Value (InsertBySql d query value) = [] \<and>
   ExecContext rb run (InsertBySql d query value) st w =
     Some (None, None, InsertBySql d query value, st, w)"
proof -
  have empty: "ExecContext rb run s st w = Some (None, None, s, st, w)" if "Value s = []" for s
    using that unfolding ExecContext_def by (subst ExecContext_loop.simps) simp
  have "Value (InsertBySql d query value) = []"
    by (simp add: InsertBySql_def)
  with empty show ?thesis by blast
qed

theorem exec_without_rows_witness:
  "Value ((users_insert 1)\<lparr>Value := []\<rparr>) = [] \<and>
   ExecContext raw_Build ok_runner ((users_insert 1)\<lparr>Value := []\<rparr>) (\<lambda>p. 0) world0 =
     Some (None, None, (users_insert 1)\<lparr>Value := []\<rparr>, (\<lambda>p. 0), world0) \<and>
   calls world0 = [] \<and>
   ExecContext raw_Build ok_runner
       (InsertBySql quote_dialect ''INSERT INTO t (a) VALUES (?)'' [VInt 1]) (\<lambda>p. 0) world0 =
     Some (None, None, InsertBySql quote_dialect ''INSERT INTO t (a) VALUES (?)'' [VInt 1],
           (\<lambda>p. 0), world0)"
  using exec_without_rows [of "(users_insert 1)\<lparr>Value := []\<rparr>" raw_Build ok_runner "\<lambda>p. 0" world0
      quote_dialect "''INSERT INTO t (a) VALUES (?)''" "[VInt 1]"]
  by (simp add: users_insert_def world0_def)

section \<open>Properties of GetSQL\<close>

lemma GetSQL_eq:
  "GetSQL rb b b2 h =
     (h(b2 := fst (InsertStmt_Build rb (Dialect_i (h b)) (h b) NewBuffer)),
      text_of (fst (compiled rb (h b))), snd (compiled rb (h b)))"
  by (simp add: GetSQL_def getSQL_def Build_at_def compiled_def Let_def case_prod_beta)

text \<open>
  C10. \<open>GetSQL\<close> compiles a copy that lives at an address \<open>b2\<close> of its own, so
  the statement at \<open>b\<close> is afterwards what it was, with its pending rows and its
  \<open>RunLen\<close>, and so is every cell but the copy's. The text and error returned are
  those of compiling the statement on a fresh buffer. Hence a second \<open>GetSQL\<close>
  (with a copy at any address \<open>b3\<close> other than \<open>b\<close>) returns the same text
  and error, and a later \<open>Build\<close> through \<open>b\<close> consumes the same rows and
  writes the same text and arguments as it would have without the \<open>GetSQL\<close>.
\<close>

theorem GetSQL_leaves_statement:
  assumes "b2 \<noteq> b"
  shows "fst (GetSQL rb b b2 h) b = h b \<and>
         Value (fst (GetSQL rb b b2 h) b) = Value (h b) \<and>
         RunLen (fst (GetSQL rb b b2 h) b) = RunLen (h b) \<and>
         (\<forall>p. p \<noteq> b2 \<longrightarrow> fst (GetSQL rb b b2 h) p = h p) \<and>
         snd (GetSQL rb b b2 h) = (text_of (fst (compiled rb (h b))), snd (compiled rb (h b))) \<and>
         (b3 \<noteq> b \<longrightarrow>
            snd (GetSQL rb b b3 (fst (GetSQL rb b b2 h))) = snd (GetSQL rb b b2 h)) \<and>
         fst (Build_at rb d b (fst (GetSQL rb b b2 h)) buf) b = fst (Build_at rb d b h buf) b \<and>
         snd (Build_at rb d b (fst (GetSQL rb b b2 h)) buf) = snd (Build_at rb d b h buf)"
  using assms by (simp add: GetSQL_eq Build_at_def case_prod_beta)

theorem GetSQL_leaves_statement_witness:
  "(1::nat) \<noteq> 0 \<and> (2::nat) \<noteq> 0 \<and>
   GetSQL raw_Build 0 1 users_heap =
     (users_heap(1 := (users_insert 1000)\<lparr>Value := []\<rparr>), users_sql @ '', (?,?)'', None) \<and>
   fst (GetSQL raw_Build 0 1 users_heap) 0 = users_insert 0 \<and>
   length (Value (fst (GetSQL raw_Build 0 1 users_heap) 0)) = 2 \<and>
   RunLen (fst (GetSQL raw_Build 0 1 users_heap) 0) = 0 \<and>
   snd (GetSQL raw_Build 0 2 (fst (GetSQL raw_Build 0 1 users_heap))) =
     (users_sql @ '', (?,?)'', None)"
proof -
  have sql: "GetSQL raw_Build 0 1 users_heap =
     (users_heap(1 := (users_insert 1000)\<lparr>Value := []\<rparr>), users_sql @ '', (?,?)'', None)"
    by (simp add: GetSQL_def getSQL_def Build_at_def users_heap_def users_insert_def
        InsertStmt_Build_def Let_def quote_dialect_def NewBuffer_def WriteString_def
        WriteValue_def placeholder_def users_sql_def)
  show ?thesis
    using GetSQL_leaves_statement [of 1 0 raw_Build users_heap 2 quote_dialect NewBuffer]
    by (simp add: sql)
      (simp add: users_heap_def users_insert_def compiled_def InsertStmt_Build_def Let_def
        quote_dialect_def NewBuffer_def WriteString_def WriteValue_def placeholder_def
        users_sql_def GetSQL_eq)
qed

end
